theory Spec2Isabelle
  imports Main "HOL-Library.Word"
begin

unbundle bit_operations_syntax

section \<open>Machine types\<close>

type_synonym u8 = "8 word"
type_synonym u32 = "32 word"
type_synonym u64 = "64 word"
type_synonym s32 = "32 word"  \<comment> \<open>a C \<^verbatim>\<open>int\<close>, read with \<open>sint\<close>\<close>

section \<open>Probe context\<close>

text \<open>
  \<^verbatim>\<open>struct retis_context\<close> as far as the two hooks and the helper read it: the saved
  argument registers \<^verbatim>\<open>ctx->regs.reg[i]\<close>, the return register \<^verbatim>\<open>ctx->regs.ret\<close>
  and the filter verdict \<^verbatim>\<open>ctx->filters_ret\<close>. Pointers are 64-bit words, \<open>0\<close> is NULL.
\<close>

record retis_regs =
  reg :: "nat \<Rightarrow> u64"
  ret :: u64

record retis_context =
  regs :: retis_regs
  filters_ret :: u32

text \<open>\<^verbatim>\<open>struct pt_regs\<close>, of which \<^verbatim>\<open>PT_REGS_IP\<close> reads the instruction pointer.\<close>

record pt_regs =
  PT_REGS_IP :: u64

section \<open>Event records\<close>

text \<open>The packed structs of \<^verbatim>\<open>kernel_enqueue.bpf.c\<close> and \<^verbatim>\<open>kernel_exec_tp.bpf.c\<close>.\<close>

record upcall_enqueue_event =
  ret :: s32
  cmd :: u8
  port :: u32

record exec_event =
  action :: u8
  recirc_id :: u32

record exec_track_event =
  queue_id :: u32

record exec_output =
  port :: u32

text \<open>\<^verbatim>\<open>sizeof\<close> of the packed structs, as passed to \<^verbatim>\<open>get_event_section\<close>.\<close>

definition sizeof_upcall_enqueue_event :: nat where
  "sizeof_upcall_enqueue_event = 4 + 1 + 4"

definition sizeof_exec_event :: nat where
  "sizeof_exec_event = 1 + 4"

definition sizeof_exec_track_event :: nat where
  "sizeof_exec_track_event = 4"

definition sizeof_exec_output :: nat where
  "sizeof_exec_output = 4"

text \<open>
  The owner and data-type identifiers the hooks pass to \<^verbatim>\<open>get_event_section\<close>
  (enumerators declared in headers outside the sources; only the ones the hooks name).
\<close>

datatype collector = COLLECTOR_OVS

datatype ovs_data_type =
  OVS_DP_UPCALL_QUEUE | OVS_DP_ACTION | OVS_DP_ACTION_TRACK | OVS_DP_ACTION_OUTPUT

text \<open>
  What a section holds: the zero-initialised region of a fresh reservation, or one of
  the four structs once the hook has stored its fields through the returned pointer.
\<close>

datatype payload =
  Zeroed
  | Upcall_enqueue upcall_enqueue_event
  | Exec exec_event
  | Exec_track exec_track_event
  | Exec_output exec_output

record event_section =
  owner :: collector
  data_type :: ovs_data_type
  sec_size :: nat
  data :: payload

text \<open>\<^verbatim>\<open>struct retis_raw_event\<close>: the sections reserved so far, in order.\<close>

type_synonym retis_raw_event = "event_section list"

section \<open>The environment of a firing\<close>

text \<open>
  Everything the hooks consult that is not defined in the sources is a field of the
  environment: BPF maps and kernel helpers, the reads of kernel memory
  (\<^verbatim>\<open>BPF_CORE_READ\<close>, \<^verbatim>\<open>bpf_probe_read_kernel\<close>, \<^verbatim>\<open>nla_type\<close>, \<^verbatim>\<open>nla_data\<close>,
  \<^verbatim>\<open>retis_get_sk_buff\<close>), the constants \<^verbatim>\<open>RETIS_F_PACKET_PASS\<close> and
  \<^verbatim>\<open>OVS_ACTION_ATTR_OUTPUT\<close>, and whether the event buffer grants a reservation.
  The map \<^verbatim>\<open>inflight_exec_cmd\<close> is only tested for a key, so it is the set of its keys;
  \<^verbatim>\<open>packet_buffers\<close> is a map from the slot index to the scratch buffer.
\<close>

record kernel =
  bpf_get_current_pid_tgid :: u64
  inflight_exec_cmd :: "u64 set"
  packet_buffers :: "u32 \<rightharpoonup> u8 list"
  retis_get_sk_buff :: "retis_context \<Rightarrow> u64"
  read_upcall_portid :: "u64 \<Rightarrow> u32"
  read_upcall_cmd :: "u64 \<Rightarrow> u8"
  read_key_recirc_id :: "u64 \<Rightarrow> u32"
  nla_type :: "u64 \<Rightarrow> s32"
  nla_data :: "u64 \<Rightarrow> u64"
  probe_read_u32 :: "u64 \<Rightarrow> u32"
  RETIS_F_PACKET_PASS :: u32
  OVS_ACTION_ATTR_OUTPUT :: s32
  section_granted :: "retis_raw_event \<Rightarrow> collector \<Rightarrow> ovs_data_type \<Rightarrow> nat \<Rightarrow> bool"
  skb_bytes :: "u64 \<Rightarrow> u8 list"
  hash_span :: nat
  hash_fn :: "u8 list \<Rightarrow> u32"
  bpf_core_enum_value_exists :: bool
  bpf_get_func_ip :: "pt_regs \<Rightarrow> u64"

section \<open>Reserving sections\<close>

text \<open>
  Modelled from the spec: \<^verbatim>\<open>get_event_section\<close>, which the hooks call and the sources
  do not define. A reservation is requested by buffer, category, record kind and exact
  size; when granted it returns a zero-initialised region of that size appended to the
  event, otherwise the absent signal (\<open>None\<close> for NULL). A reservation is never revoked.
\<close>

definition get_event_section ::
  "kernel \<Rightarrow> retis_raw_event \<Rightarrow> collector \<Rightarrow> ovs_data_type \<Rightarrow> nat \<Rightarrow> retis_raw_event option" where
  "get_event_section k event own dt sz =
     (if section_granted k event own dt sz
      then Some (event @ [\<lparr>owner = own, data_type = dt, sec_size = sz, data = Zeroed\<rparr>])
      else None)"

text \<open>
  Stores through the pointer a reservation returned. Each hook fills a section right
  after reserving it, before it reserves the next one, so the pointer is the last section.
\<close>

definition fill :: "retis_raw_event \<Rightarrow> payload \<Rightarrow> retis_raw_event" where
  "fill event p = butlast event @ [(last event)\<lparr>data := p\<rparr>]"

section \<open>\<^verbatim>\<open>helpers.h\<close>\<close>

definition kprobe_get_func_ip :: "kernel \<Rightarrow> pt_regs \<Rightarrow> u64" where
  "kprobe_get_func_ip k ctx =
     (if bpf_core_enum_value_exists k then bpf_get_func_ip k ctx
      else PT_REGS_IP ctx - 1)"

section \<open>\<^verbatim>\<open>kernel_enqueue.bpf.c\<close>\<close>

text \<open>
  The body of the hook for \<^verbatim>\<open>kretprobe:queue_userspace_packet\<close>, as written inside
  \<^verbatim>\<open>DEFINE_HOOK\<close>; the macro itself is defined outside the sources and hands the body
  a context and an event, both present. The result is the returned \<^verbatim>\<open>int\<close> and the
  event as the hook leaves it: the hook writes nowhere else.
\<close>

definition kernel_enqueue_hook ::
  "kernel \<Rightarrow> retis_context \<Rightarrow> retis_raw_event \<Rightarrow> s32 \<times> retis_raw_event" where
  "kernel_enqueue_hook k ctx event =
     (let upcall = reg (regs ctx) 3 in
      if upcall = 0 then (0, event)
      else
        (case get_event_section k event COLLECTOR_OVS OVS_DP_UPCALL_QUEUE
                sizeof_upcall_enqueue_event of
           None \<Rightarrow> (0, event)
         | Some event' \<Rightarrow>
             (0, fill event'
                   (Upcall_enqueue
                      \<lparr>ret = ucast (retis_regs.ret (regs ctx)),
                       cmd = read_upcall_cmd k upcall,
                       port = read_upcall_portid k upcall\<rparr>))))"

section \<open>\<^verbatim>\<open>kernel_exec_tp.bpf.c\<close>\<close>

text \<open>
  Modelled from the spec: \<^verbatim>\<open>hash_skb\<close>, which \<^verbatim>\<open>handle_tracking\<close> calls and the sources
  do not define. The fingerprint is a 32-bit hash over a bounded span of the packet's
  bytes, of a fixed maximum length; the buffer handle is scratch storage. The hash
  function \<open>hash_fn\<close>, the span length \<open>hash_span\<close> and the bytes \<open>skb_bytes\<close>
  readable behind a packet reference are fields of the environment.
\<close>

definition hash_skb :: "kernel \<Rightarrow> u8 list \<Rightarrow> u64 \<Rightarrow> u32" where
  "hash_skb k buff skb = hash_fn k (take (hash_span k) (skb_bytes k skb))"

definition handle_tracking ::
  "kernel \<Rightarrow> retis_context \<Rightarrow> retis_raw_event \<Rightarrow> s32 \<times> retis_raw_event" where
  "handle_tracking k ctx event =
     (let zero = 0;
          tid = bpf_get_current_pid_tgid k in
      if tid \<notin> inflight_exec_cmd k then (0, event)
      else
        let skb = retis_get_sk_buff k ctx in
        if skb = 0 then (- 1, event)
        else
          (case packet_buffers k zero of
             None \<Rightarrow> (- 1, event)
           | Some buff \<Rightarrow>
               (case get_event_section k event COLLECTOR_OVS OVS_DP_ACTION_TRACK
                       sizeof_exec_track_event of
                  None \<Rightarrow> (- 1, event)
                | Some event' \<Rightarrow>
                    (1, fill event' (Exec_track \<lparr>queue_id = hash_skb k buff skb\<rparr>)))))"

text \<open>
  Lines 84 to 101 of the hook: the action-specific data, reached only past the
  discard test. \<^verbatim>\<open>exec->action\<close> is promoted to \<^verbatim>\<open>int\<close> by the \<^verbatim>\<open>switch\<close>.
\<close>

definition action_specific ::
  "kernel \<Rightarrow> u64 \<Rightarrow> exec_event \<Rightarrow> retis_raw_event \<Rightarrow> s32 \<times> retis_raw_event" where
  "action_specific k attr exec event =
     (if ucast (action exec) = OVS_ACTION_ATTR_OUTPUT k then
        (case get_event_section k event COLLECTOR_OVS OVS_DP_ACTION_OUTPUT
                sizeof_exec_output of
           None \<Rightarrow> (0, event)
         | Some event' \<Rightarrow>
             (0, fill event' (Exec_output \<lparr>port = probe_read_u32 k (nla_data k attr)\<rparr>)))
      else (0, event))"

text \<open>
  The body of the hook for the \<^verbatim>\<open>ovs_do_execute_action\<close> tracepoint, as written
  inside \<^verbatim>\<open>DEFINE_HOOK_RAW\<close>. Every path returns 0, the early return of line 82
  included.
\<close>

definition kernel_exec_tp_hook ::
  "kernel \<Rightarrow> retis_context \<Rightarrow> retis_raw_event \<Rightarrow> s32 \<times> retis_raw_event" where
  "kernel_exec_tp_hook k ctx event =
     (let key = reg (regs ctx) 2 in
      if key = 0 then (0, event)
      else
        let attr = reg (regs ctx) 3 in
        if attr = 0 then (0, event)
        else
          (case get_event_section k event COLLECTOR_OVS OVS_DP_ACTION sizeof_exec_event of
             None \<Rightarrow> (0, event)
           | Some event' \<Rightarrow>
               let exec = \<lparr>action = ucast (nla_type k attr),
                           recirc_id = read_key_recirc_id k key\<rparr>;
                   event'' = fill event' (Exec exec);
                   tracking = handle_tracking k ctx event''
               in
                 if fst tracking = 0 \<and> filters_ret ctx AND RETIS_F_PACKET_PASS k = 0
                 then (0, snd tracking)
                 else action_specific k attr exec (snd tracking)))"

text \<open>The sections a firing added to the event it was handed.\<close>

definition emitted :: "retis_raw_event \<Rightarrow> s32 \<times> retis_raw_event \<Rightarrow> retis_raw_event" where
  "emitted event r = drop (length event) (snd r)"

text \<open>
  The \<^verbatim>\<open>OVS_DP_ACTION\<close> section as the hook has populated it at line 77, from the
  attribute in \<^verbatim>\<open>reg[3]\<close> and the flow key in \<^verbatim>\<open>reg[2]\<close>.
\<close>

definition exec_of :: "kernel \<Rightarrow> retis_context \<Rightarrow> exec_event" where
  "exec_of k ctx =
     \<lparr>action = ucast (nla_type k (reg (regs ctx) 3)),
      recirc_id = read_key_recirc_id k (reg (regs ctx) 2)\<rparr>"

definition exec_section :: "kernel \<Rightarrow> retis_context \<Rightarrow> event_section" where
  "exec_section k ctx =
     \<lparr>owner = COLLECTOR_OVS, data_type = OVS_DP_ACTION, sec_size = sizeof_exec_event,
      data = Exec (exec_of k ctx)\<rparr>"

definition track_section :: "u32 \<Rightarrow> event_section" where
  "track_section q =
     \<lparr>owner = COLLECTOR_OVS, data_type = OVS_DP_ACTION_TRACK,
      sec_size = sizeof_exec_track_event, data = Exec_track \<lparr>queue_id = q\<rparr>\<rparr>"

definition output_section :: "u32 \<Rightarrow> event_section" where
  "output_section p =
     \<lparr>owner = COLLECTOR_OVS, data_type = OVS_DP_ACTION_OUTPUT,
      sec_size = sizeof_exec_output, data = Exec_output \<lparr>port = p\<rparr>\<rparr>"

definition upcall_section :: "upcall_enqueue_event \<Rightarrow> event_section" where
  "upcall_section u =
     \<lparr>owner = COLLECTOR_OVS, data_type = OVS_DP_UPCALL_QUEUE,
      sec_size = sizeof_upcall_enqueue_event, data = Upcall_enqueue u\<rparr>"

section \<open>Concrete firings\<close>

text \<open>
  A kernel in which thread 7 runs, no userspace command is in flight, every reservation
  is granted, the attribute is an \<^verbatim>\<open>OUTPUT\<close> action to port 5, the flow key has
  recirculation id 9 and the upcall descriptor has command 3 and port 7.
\<close>

definition K0 :: kernel where
  "K0 =
     \<lparr>bpf_get_current_pid_tgid = 7,
      inflight_exec_cmd = {},
      packet_buffers = [0 \<mapsto> []],
      retis_get_sk_buff = (\<lambda>c. reg (regs c) 0),
      read_upcall_portid = (\<lambda>p. 7),
      read_upcall_cmd = (\<lambda>p. 3),
      read_key_recirc_id = (\<lambda>p. 9),
      nla_type = (\<lambda>p. 1),
      nla_data = (\<lambda>p. p + 4),
      probe_read_u32 = (\<lambda>p. 5),
      RETIS_F_PACKET_PASS = 1,
      OVS_ACTION_ATTR_OUTPUT = 1,
      section_granted = (\<lambda>e own dt sz. True),
      skb_bytes = (\<lambda>p. [1, 2, 3]),
      hash_span = 2,
      hash_fn = (\<lambda>bs. foldr (\<lambda>b h. ucast b + 31 * h) bs 0),
      bpf_core_enum_value_exists = False,
      bpf_get_func_ip = PT_REGS_IP\<rparr>"

text \<open>The same kernel while a userspace command of thread 7 is in flight.\<close>

definition K1 :: kernel where
  "K1 = K0\<lparr>inflight_exec_cmd := {7}\<rparr>"

text \<open>
  Contexts by their registers: \<open>r0\<close> is what \<open>K0\<close> takes for the packet reference,
  \<open>r2\<close> the flow key, \<open>r3\<close> the attribute or the upcall descriptor, \<open>rv\<close> the return
  register; \<open>f\<close> is the filter verdict.
\<close>

definition regs_of :: "u64 \<Rightarrow> u64 \<Rightarrow> u64 \<Rightarrow> u64 \<Rightarrow> retis_regs" where
  "regs_of r0 r2 r3 rv =
     \<lparr>reg = (\<lambda>i. if i = 0 then r0 else if i = 2 then r2 else if i = 3 then r3 else 0),
      ret = rv\<rparr>"

definition ctx_of :: "u64 \<Rightarrow> u64 \<Rightarrow> u64 \<Rightarrow> u64 \<Rightarrow> u32 \<Rightarrow> retis_context" where
  "ctx_of r0 r2 r3 rv f = \<lparr>regs = regs_of r0 r2 r3 rv, filters_ret = f\<rparr>"

section \<open>The hooks by cases\<close>

lemma fill_snoc: "fill (event @ [s]) p = event @ [s\<lparr>data := p\<rparr>]"
  by (simp add: fill_def)

lemma kernel_enqueue_hook_cases:
  "kernel_enqueue_hook k ctx event =
     (if reg (regs ctx) 3 = 0 \<or>
         \<not> section_granted k event COLLECTOR_OVS OVS_DP_UPCALL_QUEUE sizeof_upcall_enqueue_event
      then (0, event)
      else (0, event @ [upcall_section
              \<lparr>ret = ucast (retis_regs.ret (regs ctx)),
               cmd = read_upcall_cmd k (reg (regs ctx) 3),
               port = read_upcall_portid k (reg (regs ctx) 3)\<rparr>]))"
  by (simp add: kernel_enqueue_hook_def get_event_section_def fill_snoc upcall_section_def Let_def)

lemma handle_tracking_cases:
  "handle_tracking k ctx event =
     (if bpf_get_current_pid_tgid k \<notin> inflight_exec_cmd k then (0, event)
      else if retis_get_sk_buff k ctx = 0 \<or> packet_buffers k 0 = None \<or>
              \<not> section_granted k event COLLECTOR_OVS OVS_DP_ACTION_TRACK sizeof_exec_track_event
      then (- 1, event)
      else (1, event @ [track_section
              (hash_skb k (the (packet_buffers k 0)) (retis_get_sk_buff k ctx))]))"
  by (auto simp: handle_tracking_def get_event_section_def fill_snoc track_section_def Let_def
           split: option.splits)

lemma action_specific_cases:
  "action_specific k attr exec event =
     (if ucast (action exec) = OVS_ACTION_ATTR_OUTPUT k \<and>
         section_granted k event COLLECTOR_OVS OVS_DP_ACTION_OUTPUT sizeof_exec_output
      then (0, event @ [output_section (probe_read_u32 k (nla_data k attr))])
      else (0, event))"
  by (simp add: action_specific_def get_event_section_def fill_snoc output_section_def)

lemma kernel_exec_tp_hook_cases:
  "kernel_exec_tp_hook k ctx event =
     (if reg (regs ctx) 2 = 0 \<or> reg (regs ctx) 3 = 0 \<or>
         \<not> section_granted k event COLLECTOR_OVS OVS_DP_ACTION sizeof_exec_event
      then (0, event)
      else
        let tracking = handle_tracking k ctx (event @ [exec_section k ctx]) in
        if fst tracking = 0 \<and> filters_ret ctx AND RETIS_F_PACKET_PASS k = 0
        then (0, snd tracking)
        else action_specific k (reg (regs ctx) 3) (exec_of k ctx) (snd tracking))"
  by (simp add: kernel_exec_tp_hook_def get_event_section_def fill_snoc exec_section_def
        exec_of_def Let_def)

lemma emitted_append: "emitted event (r, event @ new) = new"
  by (simp add: emitted_def)

lemma emitted_same: "emitted event (r, event) = []"
  by (simp add: emitted_def)

lemmas section_simps =
  exec_section_def track_section_def output_section_def upcall_section_def

lemmas firing_simps =
  K0_def K1_def ctx_of_def regs_of_def exec_of_def
  sizeof_exec_event_def sizeof_exec_track_event_def sizeof_exec_output_def
  sizeof_upcall_enqueue_event_def

text \<open>A firing only ever appends to the event, and always returns 0.\<close>

lemma kernel_exec_tp_hook_appends:
  "fst (kernel_exec_tp_hook k ctx event) = 0 \<and>
   snd (kernel_exec_tp_hook k ctx event) =
     event @ emitted event (kernel_exec_tp_hook k ctx event)"
  by (simp add: kernel_exec_tp_hook_cases handle_tracking_cases action_specific_cases
        emitted_def Let_def)

lemma kernel_enqueue_hook_appends:
  "fst (kernel_enqueue_hook k ctx event) = 0 \<and>
   snd (kernel_enqueue_hook k ctx event) =
     event @ emitted event (kernel_enqueue_hook k ctx event)"
  by (simp add: kernel_enqueue_hook_cases emitted_def)

section \<open>The discard test of the action hook\<close>

text \<open>
  The hook takes the early return of line 82 when no command is in flight and the filter
  verdict lacks \<^verbatim>\<open>RETIS_F_PACKET_PASS\<close>. By then the \<^verbatim>\<open>OVS_DP_ACTION\<close> section has been
  reserved and populated (lines 71 to 77), and the return leaves it in the event.
\<close>

lemma discard_path:
  assumes "reg (regs ctx) 2 \<noteq> 0" and "reg (regs ctx) 3 \<noteq> 0"
    and "section_granted k event COLLECTOR_OVS OVS_DP_ACTION sizeof_exec_event"
    and "bpf_get_current_pid_tgid k \<notin> inflight_exec_cmd k"
    and "filters_ret ctx AND RETIS_F_PACKET_PASS k = 0"
  shows "kernel_exec_tp_hook k ctx event = (0, event @ [exec_section k ctx])"
  using assms by (simp add: kernel_exec_tp_hook_cases handle_tracking_cases)

text \<open>
  A firing that passes the test, with a command in flight, no packet reference and an
  action other than \<^verbatim>\<open>OUTPUT\<close>, returns the same value and the same event.
\<close>

lemma kept_without_attachments:
  assumes "reg (regs ctx) 2 \<noteq> 0" and "reg (regs ctx) 3 \<noteq> 0"
    and "section_granted k event COLLECTOR_OVS OVS_DP_ACTION sizeof_exec_event"
    and "bpf_get_current_pid_tgid k \<in> inflight_exec_cmd k"
    and "retis_get_sk_buff k ctx = 0"
    and "ucast (action (exec_of k ctx)) \<noteq> OVS_ACTION_ATTR_OUTPUT k"
  shows "kernel_exec_tp_hook k ctx event = (0, event @ [exec_section k ctx])"
  using assms
  by (simp add: kernel_exec_tp_hook_cases handle_tracking_cases action_specific_cases)

text \<open>
  So what the hook hands back at a discarded firing cannot be told from what it hands
  back at a kept one: here the two firings differ only in whether thread 7 has a command
  in flight, and the action is not \<^verbatim>\<open>OUTPUT\<close>.
\<close>

lemma discard_same_result_as_kept:
  "kernel_exec_tp_hook (K0\<lparr>nla_type := (\<lambda>p. 2)\<rparr>) (ctx_of 0 1 1 0 0) [] =
   kernel_exec_tp_hook (K1\<lparr>nla_type := (\<lambda>p. 2)\<rparr>) (ctx_of 0 1 1 0 0) []"
proof -
  have "kernel_exec_tp_hook (K0\<lparr>nla_type := (\<lambda>p. 2)\<rparr>) (ctx_of 0 1 1 0 0) [] =
          (0, [] @ [exec_section (K0\<lparr>nla_type := (\<lambda>p. 2)\<rparr>) (ctx_of 0 1 1 0 0)])"
    by (rule discard_path) (simp_all add: firing_simps)
  moreover have "kernel_exec_tp_hook (K1\<lparr>nla_type := (\<lambda>p. 2)\<rparr>) (ctx_of 0 1 1 0 0) [] =
          (0, [] @ [exec_section (K1\<lparr>nla_type := (\<lambda>p. 2)\<rparr>) (ctx_of 0 1 1 0 0)])"
    by (rule kept_without_attachments) (simp_all add: firing_simps)
  ultimately show ?thesis
    by (simp add: exec_section_def firing_simps)
qed

section \<open>The claims\<close>

subsection \<open>C1\<close>

text \<open>
  C1: a firing of the action hook at which no command is in flight and the coarse
  packet-matching predicate is false is discarded, and zero records are emitted.
  The hook's comment at lines 78 and 79 says so as well. On the code the firing below
  (flow key and attribute present, reservation granted, thread 7 not in flight, filter
  verdict 0) returns from line 82 with the \<^verbatim>\<open>OVS_DP_ACTION\<close> record in the event.
\<close>

theorem discard_leaves_action_record:
  "bpf_get_current_pid_tgid K0 \<notin> inflight_exec_cmd K0 \<and>
   filters_ret (ctx_of 0 1 1 0 0) AND RETIS_F_PACKET_PASS K0 = 0 \<and>
   kernel_exec_tp_hook K0 (ctx_of 0 1 1 0 0) [] =
     (0, [\<lparr>owner = COLLECTOR_OVS, data_type = OVS_DP_ACTION, sec_size = 5,
           data = Exec \<lparr>action = 1, recirc_id = 9\<rparr>\<rparr>])"
  by (simp add: kernel_exec_tp_hook_cases handle_tracking_cases exec_section_def firing_simps)

subsection \<open>C2\<close>

text \<open>
  C2 as stated: with a command in flight but no readable packet reference, the firing is
  ineligible and, the coarse predicate being false too, discarded with no record.
  It fails: \<^verbatim>\<open>handle_tracking\<close> returns \<open>- 1\<close> there, which the test of line 80 takes
  as true, so the hook goes on to the \<^verbatim>\<open>OUTPUT\<close> case and adds an output record.
\<close>

theorem unreadable_packet_counterexample:
  "bpf_get_current_pid_tgid K1 \<in> inflight_exec_cmd K1 \<and>
   retis_get_sk_buff K1 (ctx_of 0 1 1 0 0) = 0 \<and>
   filters_ret (ctx_of 0 1 1 0 0) AND RETIS_F_PACKET_PASS K1 = 0 \<and>
   emitted [] (kernel_exec_tp_hook K1 (ctx_of 0 1 1 0 0) []) =
     [\<lparr>owner = COLLECTOR_OVS, data_type = OVS_DP_ACTION, sec_size = 5,
        data = Exec \<lparr>action = 1, recirc_id = 9\<rparr>\<rparr>,
      \<lparr>owner = COLLECTOR_OVS, data_type = OVS_DP_ACTION_OUTPUT, sec_size = 4,
        data = Exec_output \<lparr>port = 5\<rparr>\<rparr>]"
  by (simp add: kernel_exec_tp_hook_cases handle_tracking_cases action_specific_cases
        emitted_def section_simps firing_simps)

text \<open>
  C2, amended: for every firing of the action hook that has its inputs and its action
  record, with a command in flight but no readable packet reference, no tracking record
  is attached (\<^verbatim>\<open>handle_tracking\<close> returns \<open>- 1\<close> and leaves the event as it is), and
  the firing is kept whatever the coarse predicate: the hook runs the action-specific
  step, so it emits the action record, followed by the output record exactly when the
  action is \<^verbatim>\<open>OUTPUT\<close> and that reservation is granted.
\<close>

theorem unreadable_packet_kept:
  assumes "reg (regs ctx) 2 \<noteq> 0" and "reg (regs ctx) 3 \<noteq> 0"
    and "section_granted k event COLLECTOR_OVS OVS_DP_ACTION sizeof_exec_event"
    and "bpf_get_current_pid_tgid k \<in> inflight_exec_cmd k"
    and "retis_get_sk_buff k ctx = 0"
  shows "handle_tracking k ctx (event @ [exec_section k ctx]) =
           (- 1, event @ [exec_section k ctx]) \<and>
         kernel_exec_tp_hook k ctx event =
           action_specific k (reg (regs ctx) 3) (exec_of k ctx) (event @ [exec_section k ctx]) \<and>
         emitted event (kernel_exec_tp_hook k ctx event) =
           (if ucast (action (exec_of k ctx)) = OVS_ACTION_ATTR_OUTPUT k \<and>
               section_granted k (event @ [exec_section k ctx]) COLLECTOR_OVS
                 OVS_DP_ACTION_OUTPUT sizeof_exec_output
            then [exec_section k ctx,
                  output_section (probe_read_u32 k (nla_data k (reg (regs ctx) 3)))]
            else [exec_section k ctx])"
proof -
  have t: "handle_tracking k ctx (event @ [exec_section k ctx]) =
             (- 1, event @ [exec_section k ctx])"
    using assms by (simp add: handle_tracking_cases)
  have h: "kernel_exec_tp_hook k ctx event =
             action_specific k (reg (regs ctx) 3) (exec_of k ctx) (event @ [exec_section k ctx])"
    using assms by (simp add: kernel_exec_tp_hook_cases t)
  show ?thesis
    by (simp add: t h action_specific_cases emitted_def)
qed

theorem unreadable_packet_kept_witness:
  "reg (regs (ctx_of 0 1 1 0 0)) 2 \<noteq> 0 \<and> reg (regs (ctx_of 0 1 1 0 0)) 3 \<noteq> 0 \<and>
   section_granted K1 [] COLLECTOR_OVS OVS_DP_ACTION sizeof_exec_event \<and>
   bpf_get_current_pid_tgid K1 \<in> inflight_exec_cmd K1 \<and>
   retis_get_sk_buff K1 (ctx_of 0 1 1 0 0) = 0 \<and>
   handle_tracking K1 (ctx_of 0 1 1 0 0) [exec_section K1 (ctx_of 0 1 1 0 0)] =
     (- 1, [exec_section K1 (ctx_of 0 1 1 0 0)]) \<and>
   emitted [] (kernel_exec_tp_hook K1 (ctx_of 0 1 1 0 0) []) =
     [exec_section K1 (ctx_of 0 1 1 0 0), output_section 5]"
  using unreadable_packet_kept [of "ctx_of 0 1 1 0 0" K1 "[]"]
  by (simp add: firing_simps section_simps action_specific_cases emitted_def)

subsection \<open>C3\<close>

text \<open>
  C3 as stated: every firing of the upcall hook with a non-null descriptor pointer
  emits exactly one upcall record. It fails when the reservation is refused (line 25):
  the hook then returns with nothing emitted.
\<close>

theorem upcall_unreserved_counterexample:
  "reg (regs (ctx_of 0 0 1 0 0)) 3 \<noteq> 0 \<and>
   emitted [] (kernel_enqueue_hook (K0\<lparr>section_granted := (\<lambda>e own dt sz. False)\<rparr>)
                 (ctx_of 0 0 1 0 0) []) = []"
  by (simp add: kernel_enqueue_hook_cases emitted_def ctx_of_def regs_of_def)

text \<open>
  C3, amended: every firing of the upcall hook with a non-null descriptor pointer emits
  exactly one upcall record when the reservation is granted, and nothing when it is
  refused. The record's command and port are the descriptor's command tag and
  destination port and its return code is the return register captured at probe exit,
  cast to \<^verbatim>\<open>int\<close>. A descriptor with command 3 and port 7 and a return value 0 give
  the record with command 3, port 7 and return code 0.
\<close>

theorem upcall_record_when_reserved:
  assumes "reg (regs ctx) 3 \<noteq> 0"
  shows "emitted event (kernel_enqueue_hook k ctx event) =
           (if section_granted k event COLLECTOR_OVS OVS_DP_UPCALL_QUEUE
                 sizeof_upcall_enqueue_event
            then [upcall_section
                    \<lparr>ret = ucast (retis_regs.ret (regs ctx)),
                     cmd = read_upcall_cmd k (reg (regs ctx) 3),
                     port = read_upcall_portid k (reg (regs ctx) 3)\<rparr>]
            else [])"
  using assms by (simp add: kernel_enqueue_hook_cases emitted_def)

theorem upcall_record_when_reserved_witness:
  "reg (regs (ctx_of 0 0 1 0 0)) 3 \<noteq> 0 \<and>
   section_granted K0 [] COLLECTOR_OVS OVS_DP_UPCALL_QUEUE sizeof_upcall_enqueue_event \<and>
   read_upcall_cmd K0 1 = 3 \<and> read_upcall_portid K0 1 = 7 \<and>
   retis_regs.ret (regs (ctx_of 0 0 1 0 0)) = 0 \<and>
   emitted [] (kernel_enqueue_hook K0 (ctx_of 0 0 1 0 0) []) =
     [upcall_section \<lparr>ret = 0, cmd = 3, port = 7\<rparr>]"
  using upcall_record_when_reserved [where ctx = "ctx_of 0 0 1 0 0" and k = K0 and event = "[]"]
  by (simp add: K0_def ctx_of_def regs_of_def)

subsection \<open>C4\<close>

text \<open>
  C4: for every probe state \<^verbatim>\<open>kprobe_get_func_ip\<close> returns a value, with no error
  path: the result of \<^verbatim>\<open>bpf_get_func_ip\<close> as it is when the kernel has that helper,
  and otherwise the trapped program counter minus one, in 64-bit arithmetic.
\<close>

theorem kprobe_get_func_ip_total:
  "(bpf_core_enum_value_exists k \<longrightarrow> kprobe_get_func_ip k ctx = bpf_get_func_ip k ctx) \<and>
   (\<not> bpf_core_enum_value_exists k \<longrightarrow>
      kprobe_get_func_ip k ctx = PT_REGS_IP ctx - 1 \<and>
      uint (kprobe_get_func_ip k ctx) = (uint (PT_REGS_IP ctx) - 1) mod 2 ^ 64)"
  by (simp add: kprobe_get_func_ip_def uint_word_ariths)

theorem kprobe_get_func_ip_total_witness:
  "\<not> bpf_core_enum_value_exists K0 \<and>
   kprobe_get_func_ip K0 \<lparr>PT_REGS_IP = 0x1001\<rparr> = 0x1000 \<and>
   bpf_core_enum_value_exists
     (K0\<lparr>bpf_core_enum_value_exists := True, bpf_get_func_ip := (\<lambda>r. 0x2000)\<rparr>) \<and>
   kprobe_get_func_ip
     (K0\<lparr>bpf_core_enum_value_exists := True, bpf_get_func_ip := (\<lambda>r. 0x2000)\<rparr>)
     \<lparr>PT_REGS_IP = 0x1001\<rparr> = 0x2000"
  using kprobe_get_func_ip_total [of K0 "\<lparr>PT_REGS_IP = 0x1001\<rparr>"]
    kprobe_get_func_ip_total
      [of "K0\<lparr>bpf_core_enum_value_exists := True, bpf_get_func_ip := (\<lambda>r. 0x2000)\<rparr>"
          "\<lparr>PT_REGS_IP = 0x1001\<rparr>"]
  by (simp add: K0_def)

subsection \<open>C5\<close>

text \<open>
  C5: in every firing of the action hook, a tracking record is created only when
  correlation succeeds (a command is in flight, the packet reference and the scratch
  buffer are there so the fingerprint is computed, and the reservation is granted), and
  it comes with the action record reserved earlier in the same firing: the action
  record is the first section the firing emits and the tracking record the second.
\<close>

theorem tracking_record_only_when_correlated:
  assumes "s \<in> set (emitted event (kernel_exec_tp_hook k ctx event))"
    and "data_type s = OVS_DP_ACTION_TRACK"
  shows "bpf_get_current_pid_tgid k \<in> inflight_exec_cmd k \<and>
         retis_get_sk_buff k ctx \<noteq> 0 \<and>
         packet_buffers k 0 \<noteq> None \<and>
         section_granted k (event @ [exec_section k ctx]) COLLECTOR_OVS OVS_DP_ACTION_TRACK
           sizeof_exec_track_event \<and>
         s = track_section (hash_skb k (the (packet_buffers k 0)) (retis_get_sk_buff k ctx)) \<and>
         take 2 (emitted event (kernel_exec_tp_hook k ctx event)) = [exec_section k ctx, s]"
  using assms
  by (auto simp: kernel_exec_tp_hook_cases handle_tracking_cases action_specific_cases
        emitted_def section_simps Let_def split: if_splits)

theorem tracking_record_only_when_correlated_witness:
  "track_section 63 \<in> set (emitted [] (kernel_exec_tp_hook K1 (ctx_of 80 1 1 0 0) [])) \<and>
   data_type (track_section 63) = OVS_DP_ACTION_TRACK \<and>
   bpf_get_current_pid_tgid K1 \<in> inflight_exec_cmd K1 \<and>
   retis_get_sk_buff K1 (ctx_of 80 1 1 0 0) \<noteq> 0 \<and>
   packet_buffers K1 0 \<noteq> None \<and>
   hash_skb K1 [] 80 = 63 \<and>
   take 2 (emitted [] (kernel_exec_tp_hook K1 (ctx_of 80 1 1 0 0) [])) =
     [exec_section K1 (ctx_of 80 1 1 0 0), track_section 63]"
  using tracking_record_only_when_correlated
    [of "track_section 63" "[]" K1 "ctx_of 80 1 1 0 0"]
  by (simp add: kernel_exec_tp_hook_cases handle_tracking_cases action_specific_cases
        emitted_def section_simps firing_simps hash_skb_def)

subsection \<open>C6\<close>

text \<open>
  C6: an output record is emitted only by a firing of the action hook that is kept and
  whose action type is \<^verbatim>\<open>OUTPUT\<close>, so a firing with any other action type emits none;
  and an emitted output record comes with the action record, which is the first section
  the firing emits.
\<close>

theorem output_record_only_for_output_action:
  assumes "s \<in> set (emitted event (kernel_exec_tp_hook k ctx event))"
    and "data_type s = OVS_DP_ACTION_OUTPUT"
  shows "ucast (action (exec_of k ctx)) = OVS_ACTION_ATTR_OUTPUT k \<and>
         \<not> (fst (handle_tracking k ctx (event @ [exec_section k ctx])) = 0 \<and>
            filters_ret ctx AND RETIS_F_PACKET_PASS k = 0) \<and>
         hd (emitted event (kernel_exec_tp_hook k ctx event)) = exec_section k ctx \<and>
         s = output_section (probe_read_u32 k (nla_data k (reg (regs ctx) 3)))"
  using assms
  by (auto simp: kernel_exec_tp_hook_cases handle_tracking_cases action_specific_cases
        emitted_def section_simps Let_def split: if_splits)

theorem output_record_only_for_output_action_witness:
  "output_section 5 \<in> set (emitted [] (kernel_exec_tp_hook K0 (ctx_of 80 1 1 0 1) [])) \<and>
   data_type (output_section 5) = OVS_DP_ACTION_OUTPUT \<and>
   action (exec_of K0 (ctx_of 80 1 1 0 1)) = 1 \<and>
   OVS_ACTION_ATTR_OUTPUT K0 = 1 \<and>
   filters_ret (ctx_of 80 1 1 0 1) AND RETIS_F_PACKET_PASS K0 \<noteq> 0 \<and>
   hd (emitted [] (kernel_exec_tp_hook K0 (ctx_of 80 1 1 0 1) [])) =
     exec_section K0 (ctx_of 80 1 1 0 1)"
  using output_record_only_for_output_action
    [of "output_section 5" "[]" K0 "ctx_of 80 1 1 0 1"]
  by (simp add: kernel_exec_tp_hook_cases handle_tracking_cases action_specific_cases
        emitted_def section_simps firing_simps)

subsection \<open>C7\<close>

text \<open>
  C7: the packet fingerprint is deterministic over its bounded span. Two calls of
  \<^verbatim>\<open>hash_skb\<close>, in whatever kernel states and with whatever scratch buffers, return the
  same 32-bit value when the bytes of the two packets agree on the hashed span (the
  hash function and the span length being the program's, the same in both calls).
  Distinct packets may share a fingerprint; nothing here excludes it.
\<close>

theorem hash_skb_deterministic:
  assumes "hash_fn k = hash_fn k'" and "hash_span k = hash_span k'"
    and "take (hash_span k) (skb_bytes k skb) =
         take (hash_span k') (skb_bytes k' skb')"
  shows "hash_skb k buff skb = hash_skb k' buff' skb'"
  using assms by (simp add: hash_skb_def)

theorem hash_skb_deterministic_witness:
  "hash_fn K0 = hash_fn (K1\<lparr>skb_bytes := (\<lambda>p. [1, 2, 200, 7])\<rparr>) \<and>
   hash_span K0 = hash_span (K1\<lparr>skb_bytes := (\<lambda>p. [1, 2, 200, 7])\<rparr>) \<and>
   take (hash_span K0) (skb_bytes K0 80) = [1, 2] \<and>
   take (hash_span K0) (skb_bytes (K1\<lparr>skb_bytes := (\<lambda>p. [1, 2, 200, 7])\<rparr>) 96) = [1, 2] \<and>
   hash_skb K0 [] 80 = hash_skb (K1\<lparr>skb_bytes := (\<lambda>p. [1, 2, 200, 7])\<rparr>) [9, 9] 96"
  using hash_skb_deterministic
    [of K0 "K1\<lparr>skb_bytes := (\<lambda>p. [1, 2, 200, 7])\<rparr>" 80 96 "[]" "[9, 9]"]
  by (simp add: K0_def K1_def)

subsection \<open>C8\<close>

text \<open>
  C8: a firing whose required input pointer is absent (the enqueue descriptor of the
  upcall hook; the flow key or the action attribute of the action hook) aborts silently:
  the hook returns 0 and leaves the event as it found it.
\<close>

theorem missing_input_aborts:
  "(reg (regs ctx) 3 = 0 \<longrightarrow> kernel_enqueue_hook k ctx event = (0, event)) \<and>
   (reg (regs ctx) 2 = 0 \<or> reg (regs ctx) 3 = 0 \<longrightarrow>
      kernel_exec_tp_hook k ctx event = (0, event))"
  by (simp add: kernel_enqueue_hook_cases kernel_exec_tp_hook_cases)

theorem missing_input_aborts_witness:
  "reg (regs (ctx_of 1 0 0 0 1)) 3 = 0 \<and>
   kernel_enqueue_hook K0 (ctx_of 1 0 0 0 1) [output_section 5] = (0, [output_section 5]) \<and>
   reg (regs (ctx_of 1 0 1 0 1)) 2 = 0 \<and>
   kernel_exec_tp_hook K0 (ctx_of 1 0 1 0 1) [] = (0, []) \<and>
   kernel_exec_tp_hook K0 (ctx_of 1 1 0 0 1) [] = (0, [])"
  using missing_input_aborts [of "ctx_of 1 0 0 0 1" K0 "[output_section 5]"]
    missing_input_aborts [of "ctx_of 1 0 1 0 1" K0 "[]"]
    missing_input_aborts [of "ctx_of 1 1 0 0 1" K0 "[]"]
  by (simp add: ctx_of_def regs_of_def)

subsection \<open>C9\<close>

text \<open>
  C9: a firing of the action hook that reaches the test of line 80 with a command in
  flight is kept, never discarded: \<^verbatim>\<open>handle_tracking\<close> returns a non-zero value, so the
  test fails before the filter verdict is looked at, and the hook's result is that of
  the action-specific step. Nothing is assumed of the packet reference, the scratch
  buffer, the tracking reservation or the filter verdict, and a context that differs
  in the filter verdict alone (the packet reference being the same) gives the same result.
\<close>

theorem inflight_firing_kept:
  assumes "reg (regs ctx) 2 \<noteq> 0" and "reg (regs ctx) 3 \<noteq> 0"
    and "section_granted k event COLLECTOR_OVS OVS_DP_ACTION sizeof_exec_event"
    and "bpf_get_current_pid_tgid k \<in> inflight_exec_cmd k"
  shows "fst (handle_tracking k ctx (event @ [exec_section k ctx])) \<noteq> 0 \<and>
         kernel_exec_tp_hook k ctx event =
           action_specific k (reg (regs ctx) 3) (exec_of k ctx)
             (snd (handle_tracking k ctx (event @ [exec_section k ctx]))) \<and>
         (retis_get_sk_buff k (ctx\<lparr>filters_ret := f\<rparr>) = retis_get_sk_buff k ctx \<longrightarrow>
            kernel_exec_tp_hook k (ctx\<lparr>filters_ret := f\<rparr>) event =
              kernel_exec_tp_hook k ctx event)"
proof -
  have nz: "fst (handle_tracking k ctx' (event @ [exec_section k ctx])) \<noteq> 0" for ctx'
    using assms(4) by (simp add: handle_tracking_cases)
  have kept: "kernel_exec_tp_hook k ctx event =
      action_specific k (reg (regs ctx) 3) (exec_of k ctx)
        (snd (handle_tracking k ctx (event @ [exec_section k ctx])))"
    using nz [of ctx] assms(1-3) by (simp add: kernel_exec_tp_hook_cases Let_def)
  have same: "kernel_exec_tp_hook k (ctx\<lparr>filters_ret := f\<rparr>) event =
      kernel_exec_tp_hook k ctx event"
    if skb: "retis_get_sk_buff k (ctx\<lparr>filters_ret := f\<rparr>) = retis_get_sk_buff k ctx"
  proof -
    have e: "exec_of k (ctx\<lparr>filters_ret := f\<rparr>) = exec_of k ctx"
      by (simp add: exec_of_def)
    have x: "exec_section k (ctx\<lparr>filters_ret := f\<rparr>) = exec_section k ctx"
      by (simp add: exec_section_def e)
    have t: "handle_tracking k (ctx\<lparr>filters_ret := f\<rparr>) (event @ [exec_section k ctx]) =
        handle_tracking k ctx (event @ [exec_section k ctx])"
      by (simp add: handle_tracking_cases skb)
    have "kernel_exec_tp_hook k (ctx\<lparr>filters_ret := f\<rparr>) event =
        action_specific k (reg (regs ctx) 3) (exec_of k ctx)
          (snd (handle_tracking k ctx (event @ [exec_section k ctx])))"
      using nz [of ctx] assms(1-3) by (simp add: kernel_exec_tp_hook_cases Let_def e x t)
    then show ?thesis by (simp add: kept)
  qed
  show ?thesis using nz [of ctx] kept same by blast
qed

theorem inflight_firing_kept_witness:
  "reg (regs (ctx_of 80 1 1 0 0)) 2 \<noteq> 0 \<and> reg (regs (ctx_of 80 1 1 0 0)) 3 \<noteq> 0 \<and>
   section_granted K1 [] COLLECTOR_OVS OVS_DP_ACTION sizeof_exec_event \<and>
   bpf_get_current_pid_tgid K1 \<in> inflight_exec_cmd K1 \<and>
   filters_ret (ctx_of 80 1 1 0 0) AND RETIS_F_PACKET_PASS K1 = 0 \<and>
   retis_get_sk_buff K1 ((ctx_of 80 1 1 0 0)\<lparr>filters_ret := 1\<rparr>) =
     retis_get_sk_buff K1 (ctx_of 80 1 1 0 0) \<and>
   handle_tracking K1 (ctx_of 80 1 1 0 0) [exec_section K1 (ctx_of 80 1 1 0 0)] =
     (1, [exec_section K1 (ctx_of 80 1 1 0 0), track_section 63]) \<and>
   kernel_exec_tp_hook K1 (ctx_of 80 1 1 0 0) [] =
     (0, [exec_section K1 (ctx_of 80 1 1 0 0), track_section 63, output_section 5]) \<and>
   kernel_exec_tp_hook K1 ((ctx_of 80 1 1 0 0)\<lparr>filters_ret := 1\<rparr>) [] =
     kernel_exec_tp_hook K1 (ctx_of 80 1 1 0 0) []"
  using inflight_firing_kept [of "ctx_of 80 1 1 0 0" K1 "[]" 1]
  by (simp add: handle_tracking_cases action_specific_cases section_simps firing_simps
        hash_skb_def)

subsection \<open>C10\<close>

lemma sint_ucast_low32:
  "sint (ucast (r :: u64) :: 32 word) = (uint r + 2 ^ 31) mod 2 ^ 32 - 2 ^ 31"
proof -
  have "sint (ucast r :: 32 word) = signed_take_bit 31 (take_bit 32 (uint r))"
    by (simp add: sint_uint unsigned_ucast_eq)
  also have "\<dots> = signed_take_bit 31 (uint r)"
    by (simp add: signed_take_bit_take_bit)
  also have "\<dots> = (uint r + 2 ^ 31) mod 2 ^ 32 - 2 ^ 31"
    by (simp add: signed_take_bit_eq_take_bit_shift take_bit_eq_mod)
  finally show ?thesis .
qed

text \<open>
  C10: the return code of every emitted upcall record is the 64-bit return register
  captured at probe exit cut to its low 32 bits and read as a signed 32-bit integer:
  its bits are the register's value modulo \<open>2 ^ 32\<close>, not the whole register.
\<close>

theorem upcall_ret_low32:
  assumes "s \<in> set (emitted event (kernel_enqueue_hook k ctx event))"
    and "data s = Upcall_enqueue u"
  shows "uint (upcall_enqueue_event.ret u) = uint (retis_regs.ret (regs ctx)) mod 2 ^ 32 \<and>
         sint (upcall_enqueue_event.ret u) =
           (uint (retis_regs.ret (regs ctx)) + 2 ^ 31) mod 2 ^ 32 - 2 ^ 31"
proof -
  have "upcall_enqueue_event.ret u = ucast (retis_regs.ret (regs ctx))"
    using assms
    by (auto simp: kernel_enqueue_hook_cases emitted_append emitted_same upcall_section_def
             split: if_splits)
  then show ?thesis
    by (simp add: sint_ucast_low32 unsigned_ucast_eq take_bit_eq_mod)
qed

theorem upcall_ret_low32_witness:
  "upcall_section \<lparr>ret = 0xFFFFFFFF, cmd = 3, port = 7\<rparr>
     \<in> set (emitted [] (kernel_enqueue_hook K0 (ctx_of 0 0 1 0x1FFFFFFFF 0) [])) \<and>
   data (upcall_section \<lparr>ret = 0xFFFFFFFF, cmd = 3, port = 7\<rparr>) =
     Upcall_enqueue \<lparr>ret = 0xFFFFFFFF, cmd = 3, port = 7\<rparr> \<and>
   uint (retis_regs.ret (regs (ctx_of 0 0 1 0x1FFFFFFFF 0))) = 0x1FFFFFFFF \<and>
   uint (0xFFFFFFFF :: 32 word) = 0xFFFFFFFF \<and>
   sint (0xFFFFFFFF :: 32 word) = - 1"
  using upcall_ret_low32
    [of "upcall_section \<lparr>ret = 0xFFFFFFFF, cmd = 3, port = 7\<rparr>" "[]" K0
        "ctx_of 0 0 1 0x1FFFFFFFF 0" "\<lparr>ret = 0xFFFFFFFF, cmd = 3, port = 7\<rparr>"]
  by (simp add: kernel_enqueue_hook_cases emitted_def K0_def ctx_of_def regs_of_def
        upcall_section_def)

end
